theory Spec2Isabelle
  imports Main "HOL-Library.Sublist"
begin

section \<open>Python string operations used by the collector\<close>

text \<open>
  The collector is Python 2 code (a Diamond collector): its strings are byte strings,
  modelled as \<^typ>\<open>string\<close> (a list of 8-bit characters).
\<close>

text \<open>\<^verbatim>\<open>sep.join(xs)\<close>\<close>

fun join :: "string \<Rightarrow> string list \<Rightarrow> string" where
  "join sep [] = []"
| "join sep [x] = x"
| "join sep (x # y # ys) = x @ sep @ join sep (y # ys)"

text \<open>\<^verbatim>\<open>p in s\<close> on strings: \<open>p\<close> occurs in \<open>s\<close> as a contiguous substring.\<close>

fun str_in :: "string \<Rightarrow> string \<Rightarrow> bool" where
  "str_in p [] = (p = [])"
| "str_in p (c # cs) = (prefix p (c # cs) \<or> str_in p cs)"

text \<open>
  \<^verbatim>\<open>s.replace(old, new)\<close>: every non-overlapping occurrence of \<open>old\<close>, scanning from
  the left, is replaced by \<open>new\<close>. The counter \<open>k\<close> of \<open>replace_from\<close> is the number of
  characters of a matched occurrence still to be skipped. An empty \<open>old\<close> matches
  before every character and at the end.
\<close>

fun replace_from :: "nat \<Rightarrow> string \<Rightarrow> string \<Rightarrow> string \<Rightarrow> string" where
  "replace_from k old new [] = []"
| "replace_from (Suc k) old new (c # cs) = replace_from k old new cs"
| "replace_from 0 old new (c # cs) =
     (if prefix old (c # cs) then new @ replace_from (length old - 1) old new cs
      else c # replace_from 0 old new cs)"

definition str_replace :: "string \<Rightarrow> string \<Rightarrow> string \<Rightarrow> string" where
  "str_replace s old new =
     (if old = [] then new @ concat (map (\<lambda>c. c # new) s) else replace_from 0 old new s)"

text \<open>
  The regular-expression class \<^verbatim>\<open>\w\<close> on a byte string without flags is
  \<^verbatim>\<open>[a-zA-Z0-9_]\<close>; \<^verbatim>\<open>\W\<close> is its complement.
\<close>

definition word_chars :: string where
  "word_chars = ''abcdefghijklmnopqrstuvwxyzABCDEFGHIJKLMNOPQRSTUVWXYZ0123456789_''"

definition is_word_char :: "char \<Rightarrow> bool" where
  "is_word_char c \<longleftrightarrow> c \<in> set word_chars"

text \<open>\<^verbatim>\<open>re.sub(r'\W', '_', ifName)\<close>\<close>

definition sub_nonword :: "string \<Rightarrow> string" where
  "sub_nonword ifName = map (\<lambda>c. if is_word_char c then c else CHR ''_'') ifName"

text \<open>\<^verbatim>\<open>re.sub(r'(\"|\')', '', ifName)\<close>: the two quote characters are deleted.\<close>

definition remove_quotes :: "string \<Rightarrow> string" where
  "remove_quotes ifName = filter (\<lambda>c. c \<noteq> CHR 0x22 \<and> c \<noteq> CHR 0x27) ifName"

section \<open>Errors and dictionaries\<close>

text \<open>
  The exceptions the collector can meet. \<open>TransportError\<close> stands for whatever the
  inherited \<^verbatim>\<open>get\<close> and \<^verbatim>\<open>walk\<close> raise; \<open>KeyError\<close> is a dictionary lookup of a missing
  key; \<open>IOError\<close> is a failed \<^verbatim>\<open>open\<close>; \<open>UnboundLocalError\<close> is the use of a local
  variable that was never assigned.
\<close>

datatype error = TransportError | KeyError | IOError | UnboundLocalError

text \<open>\<^verbatim>\<open>d[k]\<close> on a dictionary.\<close>

definition lookup :: "(string \<rightharpoonup> string) \<Rightarrow> string \<Rightarrow> error + string" where
  "lookup d k = (case d k of None \<Rightarrow> Inl KeyError | Some v \<Rightarrow> Inr v)"

section \<open>Class constants\<close>

definition IF_MIB_INDEX_OID :: string where "IF_MIB_INDEX_OID = ''1.3.6.1.2.1.2.2.1.1''"
definition IF_MIB_NAME_OID :: string where "IF_MIB_NAME_OID = ''1.3.6.1.2.1.31.1.1.1.1''"
definition IF_MIB_TYPE_OID :: string where "IF_MIB_TYPE_OID = ''1.3.6.1.2.1.2.2.1.3''"
definition IF_MIB_STATUS_OID :: string where "IF_MIB_STATUS_OID = ''1.3.6.1.2.1.2.2.1.8''"

definition VENDOR_DESC_OID :: string where "VENDOR_DESC_OID = ''1.3.6.1.2.1.1.1.0''"
definition IOS_XE_CPU_OID :: string where "IOS_XE_CPU_OID = ''1.3.6.1.4.1.9.9.109.1.1.1.1.7.2''"
definition CISCO_LEGACY_CPU_OID :: string where
  "CISCO_LEGACY_CPU_OID = ''1.3.6.1.4.1.9.9.109.1.1.1.1.7.1''"
definition GENERIC_CPU_OID :: string where "GENERIC_CPU_OID = ''1.3.6.1.4.1.1588.2.1.1.1.26.1.0''"

text \<open>
  The two metric tables are dictionaries that the code only iterates over and looks up
  by a key taken from the iteration. They are association lists in the order of the
  source text; the order in which Python 2 iterates over a dictionary is fixed but
  arbitrary, so no statement below should be read as fixing the order of the records
  of one interface.
\<close>

definition IF_MIB_GAUGE_OID_TABLE :: "(string \<times> string) list" where
  "IF_MIB_GAUGE_OID_TABLE =
     [(''ifInDiscards'', ''1.3.6.1.2.1.2.2.1.13''),
      (''ifInErrors'', ''1.3.6.1.2.1.2.2.1.14''),
      (''ifOutDiscards'', ''1.3.6.1.2.1.2.2.1.19''),
      (''ifOutErrors'', ''1.3.6.1.2.1.2.2.1.20'')]"

definition IF_MIB_COUNTER_OID_TABLE :: "(string \<times> string) list" where
  "IF_MIB_COUNTER_OID_TABLE =
     [(''ifInOctets'', ''1.3.6.1.2.1.31.1.1.1.6''),
      (''ifInUcastPkts'', ''1.3.6.1.2.1.31.1.1.1.7''),
      (''ifInMulticastPkts'', ''1.3.6.1.2.1.31.1.1.1.8''),
      (''ifInBroadcastPkts'', ''1.3.6.1.2.1.31.1.1.1.9''),
      (''ifOutOctets'', ''1.3.6.1.2.1.31.1.1.1.10''),
      (''ifOutUcastPkts'', ''1.3.6.1.2.1.31.1.1.1.11''),
      (''ifOutMulticastPkts'', ''1.3.6.1.2.1.31.1.1.1.12''),
      (''ifOutBroadcastPkts'', ''1.3.6.1.2.1.31.1.1.1.13'')]"

definition IF_TYPES :: "string list" where "IF_TYPES = [''6'', ''135'', ''131'']"
definition IF_STATUS :: "string list" where "IF_STATUS = [''1'']"

section \<open>Configuration and the inherited SNMP access\<close>

text \<open>The two configuration keys the collector reads: \<^verbatim>\<open>path\<close> and \<^verbatim>\<open>byte_unit\<close>.\<close>

record config =
  path :: string
  byte_unit :: "string list"

definition get_default_config :: config where
  "get_default_config = \<lparr>path = ''interface'', byte_unit = [''bit'', ''byte'']\<rparr>"

text \<open>
  \<^verbatim>\<open>self.walk\<close> and \<^verbatim>\<open>self.get\<close> are inherited from the parent collector, which is not
  part of this file: they are parameters here. Each takes \<open>oid host port community\<close>
  and returns a dictionary from OID to value, or raises. The dictionary of a walk is an
  association list, since the code iterates over its values; the one of a get is only
  looked up.
\<close>

record snmp =
  walk :: "string \<Rightarrow> string \<Rightarrow> nat \<Rightarrow> string \<Rightarrow> error + (string \<times> string) list"
  get :: "string \<Rightarrow> string \<Rightarrow> nat \<Rightarrow> string \<Rightarrow> error + (string \<rightharpoonup> string)"

section \<open>Building the records\<close>

text \<open>\<^verbatim>\<open>'K,{0},{1},{2},{3}'.format(host, community, oid, metricPath)\<close>\<close>

definition oid_desc :: "string \<Rightarrow> string \<Rightarrow> string \<Rightarrow> string \<Rightarrow> string \<Rightarrow> string" where
  "oid_desc kind host community oid metricPath =
     kind @ '','' @ host @ '','' @ community @ '','' @ oid @ '','' @ metricPath"

text \<open>
  \<^verbatim>\<open>make_gauge_desc\<close>: the loop over the items of the gauge table, appending one line
  to \<^verbatim>\<open>self.OIDS\<close> (the last argument) each time round.
\<close>

fun make_gauge_desc_loop ::
  "config \<Rightarrow> string \<Rightarrow> string \<Rightarrow> string \<Rightarrow> string \<Rightarrow> string \<Rightarrow> (string \<times> string) list
     \<Rightarrow> string list \<Rightarrow> error + string list" where
  "make_gauge_desc_loop cfg device host community ifName ifIndex [] oids = Inr oids"
| "make_gauge_desc_loop cfg device host community ifName ifIndex ((gaugeName, gaugeOid) # items) oids =
     (case map_of IF_MIB_GAUGE_OID_TABLE gaugeName of
        None \<Rightarrow> Inl KeyError
      | Some tableOid \<Rightarrow>
          (let ifGaugeOid = join ''.'' [tableOid, ifIndex];
               metricIfDescr = sub_nonword ifName;
               metricName = join ''.'' [metricIfDescr, gaugeName];
               metricPath = join ''.'' [''devices'', device, path cfg, metricName];
               oidDesc = oid_desc ''G'' host community ifGaugeOid metricPath
           in make_gauge_desc_loop cfg device host community ifName ifIndex items (oids @ [oidDesc])))"

definition make_gauge_desc ::
  "config \<Rightarrow> string \<Rightarrow> string \<Rightarrow> string \<Rightarrow> string \<Rightarrow> string \<Rightarrow> string list \<Rightarrow> error + string list" where
  "make_gauge_desc cfg device host community ifName ifIndex oids =
     make_gauge_desc_loop cfg device host community ifName ifIndex IF_MIB_GAUGE_OID_TABLE oids"

text \<open>
  \<^verbatim>\<open>make_counter_desc\<close>. The local variable \<^verbatim>\<open>metricPath\<close> is assigned inside the loop
  over the unit labels or in the \<^verbatim>\<open>else\<close> branch, and read after both, outside the loop
  over the units: it is threaded through as an option, \<open>None\<close> while it is unbound. The
  inner loop over \<^verbatim>\<open>self.config['byte_unit']\<close> only assigns \<^verbatim>\<open>metricPath\<close>.
\<close>

fun byte_unit_loop ::
  "config \<Rightarrow> string \<Rightarrow> string \<Rightarrow> string \<Rightarrow> string list \<Rightarrow> string option \<Rightarrow> string option" where
  "byte_unit_loop cfg device metricIfDescr counterName [] metricPath = metricPath"
| "byte_unit_loop cfg device metricIfDescr counterName (unit # units) metricPath =
     (let metricName = join ''.'' [metricIfDescr, str_replace counterName ''Octets'' unit];
          metricPath' = join ''.'' [''devices'', device, path cfg, metricName]
      in byte_unit_loop cfg device metricIfDescr counterName units (Some metricPath'))"

fun make_counter_desc_loop ::
  "config \<Rightarrow> string \<Rightarrow> string \<Rightarrow> string \<Rightarrow> string \<Rightarrow> string \<Rightarrow> (string \<times> string) list
     \<Rightarrow> string option \<Rightarrow> string list \<Rightarrow> error + string list" where
  "make_counter_desc_loop cfg device host community ifName ifIndex [] metricPath oids = Inr oids"
| "make_counter_desc_loop cfg device host community ifName ifIndex
       ((counterName, counterOid) # items) metricPath oids =
     (case map_of IF_MIB_COUNTER_OID_TABLE counterName of
        None \<Rightarrow> Inl KeyError
      | Some tableOid \<Rightarrow>
          (let ifCounterOid = join ''.'' [tableOid, ifIndex];
               metricIfDescr = sub_nonword ifName;
               metricPath' =
                 (if counterName \<in> set [''ifHCInOctets'', ''ifHCOutOctets'']
                  then byte_unit_loop cfg device metricIfDescr counterName (byte_unit cfg) metricPath
                  else (let metricName = join ''.'' [metricIfDescr, counterName]
                        in Some (join ''.'' [''devices'', device, path cfg, metricName])))
           in case metricPath' of
                None \<Rightarrow> Inl UnboundLocalError
              | Some mp \<Rightarrow>
                  make_counter_desc_loop cfg device host community ifName ifIndex items metricPath'
                    (oids @ [oid_desc ''C'' host community ifCounterOid mp])))"

definition make_counter_desc ::
  "config \<Rightarrow> string \<Rightarrow> string \<Rightarrow> string \<Rightarrow> string \<Rightarrow> string \<Rightarrow> string list \<Rightarrow> error + string list" where
  "make_counter_desc cfg device host community ifName ifIndex oids =
     make_counter_desc_loop cfg device host community ifName ifIndex IF_MIB_COUNTER_OID_TABLE None oids"

section \<open>Enumerating the interfaces\<close>

text \<open>
  The body of the \<^verbatim>\<open>for ifIndex in ifIndexes\<close> loop of \<^verbatim>\<open>get_interface_indexes\<close>. Both
  GETs are made before either result is looked up; \<^verbatim>\<open>or\<close> does not evaluate its second
  operand when the first holds; \<^verbatim>\<open>continue\<close> leaves the list as it is. There is no
  \<^verbatim>\<open>try\<close> in the method: every exception leaves it.
\<close>

definition get_interface_indexes_body ::
  "config \<Rightarrow> snmp \<Rightarrow> string \<Rightarrow> string \<Rightarrow> nat \<Rightarrow> string \<Rightarrow> string \<Rightarrow> string list
     \<Rightarrow> error + string list" where
  "get_interface_indexes_body cfg s device host port community ifIndex oids =
     (let ifTypeOid = join ''.'' [IF_MIB_TYPE_OID, ifIndex] in
      case get s ifTypeOid host port community of
        Inl e \<Rightarrow> Inl e
      | Inr ifTypeData \<Rightarrow>
     (let ifStatusOid = join ''.'' [IF_MIB_STATUS_OID, ifIndex] in
      case get s ifStatusOid host port community of
        Inl e \<Rightarrow> Inl e
      | Inr ifStatusData \<Rightarrow>
     (case lookup ifTypeData ifTypeOid of
        Inl e \<Rightarrow> Inl e
      | Inr ifType \<Rightarrow>
     if ifType \<notin> set IF_TYPES then Inr oids else
     (case lookup ifStatusData ifStatusOid of
        Inl e \<Rightarrow> Inl e
      | Inr ifStatus \<Rightarrow>
     if ifStatus \<notin> set IF_STATUS then Inr oids else
     (let ifNameOid = join ''.'' [IF_MIB_NAME_OID, ifIndex] in
      case get s ifNameOid host port community of
        Inl e \<Rightarrow> Inl e
      | Inr ifNameData \<Rightarrow>
     (case lookup ifNameData ifNameOid of
        Inl e \<Rightarrow> Inl e
      | Inr ifName0 \<Rightarrow>
     (let ifName = remove_quotes ifName0 in
      if ifType = ''135''
      then make_counter_desc cfg device host community ifName ifIndex oids
      else (case make_gauge_desc cfg device host community ifName ifIndex oids of
              Inl e \<Rightarrow> Inl e
            | Inr oids' \<Rightarrow> make_counter_desc cfg device host community ifName ifIndex oids'))))))))"

fun get_interface_indexes_loop ::
  "config \<Rightarrow> snmp \<Rightarrow> string \<Rightarrow> string \<Rightarrow> nat \<Rightarrow> string \<Rightarrow> string list \<Rightarrow> string list
     \<Rightarrow> error + string list" where
  "get_interface_indexes_loop cfg s device host port community [] oids = Inr oids"
| "get_interface_indexes_loop cfg s device host port community (ifIndex # ifIndexes) oids =
     (case get_interface_indexes_body cfg s device host port community ifIndex oids of
        Inl e \<Rightarrow> Inl e
      | Inr oids' \<Rightarrow> get_interface_indexes_loop cfg s device host port community ifIndexes oids')"

definition get_interface_indexes ::
  "config \<Rightarrow> snmp \<Rightarrow> string \<Rightarrow> string \<Rightarrow> nat \<Rightarrow> string \<Rightarrow> string list \<Rightarrow> error + string list" where
  "get_interface_indexes cfg s device host port community oids =
     (let ifIndexOid = join ''.'' [IF_MIB_INDEX_OID] in
      case walk s ifIndexOid host port community of
        Inl e \<Rightarrow> Inl e
      | Inr ifIndexData \<Rightarrow>
          get_interface_indexes_loop cfg s device host port community (map snd ifIndexData) oids)"

section \<open>The CPU record\<close>

definition get_environment_oid ::
  "snmp \<Rightarrow> string \<Rightarrow> string \<Rightarrow> nat \<Rightarrow> string \<Rightarrow> string list \<Rightarrow> error + string list" where
  "get_environment_oid s device host port community oids =
     (case get s VENDOR_DESC_OID host port community of
        Inl e \<Rightarrow> Inl e
      | Inr vendorData \<Rightarrow>
     (case lookup vendorData VENDOR_DESC_OID of
        Inl e \<Rightarrow> Inl e
      | Inr vendorHexString \<Rightarrow>
     if str_in ''494f532d5845'' vendorHexString then
       (let metricPath = join ''.'' [''devices'', device, ''cpu'', ''1min_average_percent''];
            oidDesc = oid_desc ''G'' host community IOS_XE_CPU_OID metricPath
        in Inr (oids @ [oidDesc]))
     else if str_in ''436973636f'' vendorHexString then
       (let metricPath = join ''.'' [''devices'', device, ''cpu'', ''1min_average_percent''];
            oidDesc = oid_desc ''G'' host community CISCO_LEGACY_CPU_OID metricPath
        in Inr (oids @ [oidDesc]))
     else
       (let metricPath = join ''.'' [''devices'', device, ''cpu'', ''current_percent''];
            oidDesc = oid_desc ''G'' host community GENERIC_CPU_OID metricPath
        in Inr (oids @ [oidDesc]))))"

section \<open>The catalog file\<close>

text \<open>
  The one file the collector reads and rewrites, \<^verbatim>\<open>OIDFILE\<close>. \<open>contents\<close> is what
  \<^verbatim>\<open>open(OIDFILE).read()\<close> returns, \<open>None\<close> when \<^verbatim>\<open>open\<close> raises \<^verbatim>\<open>IOError\<close> (no such
  file, no permission); \<open>writable\<close> tells whether \<^verbatim>\<open>open(OIDFILE, 'w')\<close> succeeds.
\<close>

record oidfile =
  contents :: "string option"
  writable :: bool

text \<open>
  \<^verbatim>\<open>s.splitlines()\<close> on a byte string: a line ends at \<^verbatim>\<open>\n\<close>, at \<^verbatim>\<open>\r\<close> or at \<^verbatim>\<open>\r\n\<close>
  taken as one break; the breaks are dropped; characters after the last break form a
  last line only when there are any. \<open>cur\<close> holds the characters of the line being read.
\<close>

function splitlines_from :: "string \<Rightarrow> string \<Rightarrow> string list" where
  "splitlines_from cur [] = (if cur = [] then [] else [cur])"
| "splitlines_from cur (c # cs) =
     (if c = CHR 0x0A then cur # splitlines_from [] cs
      else if c = CHR 0x0D then
        cur # splitlines_from [] (case cs of [] \<Rightarrow> [] | d # ds \<Rightarrow> if d = CHR 0x0A then ds else cs)
      else splitlines_from (cur @ [c]) cs)"
  by pat_completeness auto
termination
  by (relation "measure (\<lambda>(cur, s). length s)") (auto split: list.splits)

definition splitlines :: "string \<Rightarrow> string list" where
  "splitlines s = splitlines_from [] s"

text \<open>
  The \<^verbatim>\<open>try\<close> block of \<^verbatim>\<open>parse_oid_file\<close>: the lines of the file, and the initial
  empty list when \<^verbatim>\<open>open\<close> raises \<^verbatim>\<open>IOError\<close> (the handler only logs).
\<close>

definition read_oidfile :: "oidfile \<Rightarrow> string list" where
  "read_oidfile f = (case contents f of None \<Rightarrow> [] | Some text \<Rightarrow> splitlines text)"

definition parse_oid_file :: "oidfile \<Rightarrow> string \<Rightarrow> string list" where
  "parse_oid_file f host =
     (let curOids = read_oidfile f;
          oidlist = filter (\<lambda>item. \<not> str_in host item) curOids
      in oidlist)"

text \<open>The text written by the loop \<^verbatim>\<open>for oid in self.OIDS: oidf.write('{0}\n'.format(oid))\<close>.\<close>

definition write_oids :: "string list \<Rightarrow> string" where
  "write_oids oids = concat (map (\<lambda>oid. oid @ [CHR 0x0A]) oids)"

section \<open>One discovery run\<close>

text \<open>
  \<^verbatim>\<open>collect_snmp\<close>: \<^verbatim>\<open>self.OIDS\<close> becomes the purged catalog, the two discovery steps
  append to it, and the file is rewritten with the result. The result is the file
  after the run; an exception in any step leaves the file untouched.
\<close>

definition collect_snmp ::
  "config \<Rightarrow> snmp \<Rightarrow> oidfile \<Rightarrow> string \<Rightarrow> string \<Rightarrow> nat \<Rightarrow> string \<Rightarrow> error + oidfile" where
  "collect_snmp cfg s f device host port community =
     (let oids0 = parse_oid_file f host in
      case get_interface_indexes cfg s device host port community oids0 of
        Inl e \<Rightarrow> Inl e
      | Inr oids1 \<Rightarrow>
     (case get_environment_oid s device host port community oids1 of
        Inl e \<Rightarrow> Inl e
      | Inr oids2 \<Rightarrow>
     if writable f then Inr (f\<lparr>contents := Some (write_oids oids2)\<rparr>) else Inl IOError))"

section \<open>Notions used in the statements\<close>

text \<open>
  Every step of a run appends to \<^verbatim>\<open>self.OIDS\<close>. \<open>appended oids r\<close> is the outcome \<open>r\<close> of
  a step started on the empty list, replayed on the list \<open>oids\<close>.
\<close>

definition appended :: "string list \<Rightarrow> error + string list \<Rightarrow> error + string list" where
  "appended oids r = (case r of Inl e \<Rightarrow> Inl e | Inr new \<Rightarrow> Inr (oids @ new))"

text \<open>A string without line breaks: what \<^verbatim>\<open>splitlines\<close> returns as one line.\<close>

definition no_linebreak :: "string \<Rightarrow> bool" where
  "no_linebreak l = list_all (\<lambda>c. c \<noteq> CHR 0x0A \<and> c \<noteq> CHR 0x0D) l"

section \<open>A sample device and a sample catalog\<close>

text \<open>
  An SNMP agent given by the rows of a walk of the index table and by a table from OID
  to value: a GET of an OID of the table returns the one-entry dictionary, a GET of any
  other OID and a walk of any other table fail.
\<close>

definition mib_snmp :: "(string \<times> string) list \<Rightarrow> (string \<times> string) list \<Rightarrow> snmp" where
  "mib_snmp indexes mib =
     \<lparr>walk = (\<lambda>oid host port community.
               if oid = IF_MIB_INDEX_OID then Inr indexes else Inl TransportError),
      get = (\<lambda>oid host port community.
               case map_of mib oid of None \<Rightarrow> Inl TransportError | Some v \<Rightarrow> Inr [oid \<mapsto> v])\<rparr>"

text \<open>
  Interface 5 is an Ethernet port that is up and whose name comes back in double
  quotes, interface 7 is a VLAN (type 135) that is up, interface 9 is a loopback
  (type 24); the system description is the hex rendering of \<^verbatim>\<open>Cisco IOS Software\<close>.
\<close>

definition router1_mib :: "(string \<times> string) list" where
  "router1_mib =
     [(''1.3.6.1.2.1.2.2.1.3.5'', ''6''),
      (''1.3.6.1.2.1.2.2.1.8.5'', ''1''),
      (''1.3.6.1.2.1.31.1.1.1.1.5'', [CHR 0x22] @ ''Gi0/1'' @ [CHR 0x22]),
      (''1.3.6.1.2.1.2.2.1.3.7'', ''135''),
      (''1.3.6.1.2.1.2.2.1.8.7'', ''1''),
      (''1.3.6.1.2.1.31.1.1.1.1.7'', ''Vlan10''),
      (''1.3.6.1.2.1.2.2.1.3.9'', ''24''),
      (''1.3.6.1.2.1.2.2.1.8.9'', ''1''),
      (''1.3.6.1.2.1.1.1.0'', ''0x436973636f20494f5320536f667477617265'')]"

definition router1_snmp :: snmp where
  "router1_snmp = mib_snmp [(''1.3.6.1.2.1.2.2.1.1.7'', ''7''), (''1.3.6.1.2.1.2.2.1.1.9'', ''9'')] router1_mib"

text \<open>The same agent with no answer for the type of interface 5.\<close>

definition flaky_mib :: "(string \<times> string) list" where
  "flaky_mib =
     [(''1.3.6.1.2.1.2.2.1.8.5'', ''1''),
      (''1.3.6.1.2.1.31.1.1.1.1.5'', ''Gi0/1''),
      (''1.3.6.1.2.1.2.2.1.3.7'', ''135''),
      (''1.3.6.1.2.1.2.2.1.8.7'', ''1''),
      (''1.3.6.1.2.1.31.1.1.1.1.7'', ''Vlan10'')]"

text \<open>The records that discovery of \<open>router1_snmp\<close> builds: interface 7 and the CPU.\<close>

definition router1_records :: "string list" where
  "router1_records =
     [''C,router1.example.com,public,1.3.6.1.2.1.31.1.1.1.6.7,devices.router1.interface.Vlan10.ifInOctets'',
      ''C,router1.example.com,public,1.3.6.1.2.1.31.1.1.1.7.7,devices.router1.interface.Vlan10.ifInUcastPkts'',
      ''C,router1.example.com,public,1.3.6.1.2.1.31.1.1.1.8.7,devices.router1.interface.Vlan10.ifInMulticastPkts'',
      ''C,router1.example.com,public,1.3.6.1.2.1.31.1.1.1.9.7,devices.router1.interface.Vlan10.ifInBroadcastPkts'',
      ''C,router1.example.com,public,1.3.6.1.2.1.31.1.1.1.10.7,devices.router1.interface.Vlan10.ifOutOctets'',
      ''C,router1.example.com,public,1.3.6.1.2.1.31.1.1.1.11.7,devices.router1.interface.Vlan10.ifOutUcastPkts'',
      ''C,router1.example.com,public,1.3.6.1.2.1.31.1.1.1.12.7,devices.router1.interface.Vlan10.ifOutMulticastPkts'',
      ''C,router1.example.com,public,1.3.6.1.2.1.31.1.1.1.13.7,devices.router1.interface.Vlan10.ifOutBroadcastPkts'',
      ''G,router1.example.com,public,1.3.6.1.4.1.9.9.109.1.1.1.1.7.1,devices.router1.cpu.1min_average_percent'']"

text \<open>A catalog holding two records of another host around a stale record of router1.\<close>

definition old_catalog :: oidfile where
  "old_catalog =
     \<lparr>contents = Some (write_oids
        [''G,router2.example.com,public,1.3.6.1.4.1.1588.2.1.1.1.26.1.0,devices.router2.cpu.current_percent'',
         ''G,router1.example.com,public,1.3.6.1.4.1.1588.2.1.1.1.26.1.0,devices.router1.cpu.current_percent'',
         ''C,router2.example.com,public,1.3.6.1.2.1.31.1.1.1.6.3,devices.router2.interface.Gi0_3.ifInOctets'']),
      writable = True\<rparr>"

definition new_catalog :: oidfile where
  "new_catalog =
     \<lparr>contents = Some (write_oids
        ([''G,router2.example.com,public,1.3.6.1.4.1.1588.2.1.1.1.26.1.0,devices.router2.cpu.current_percent'',
          ''C,router2.example.com,public,1.3.6.1.2.1.31.1.1.1.6.3,devices.router2.interface.Gi0_3.ifInOctets'']
         @ router1_records)),
      writable = True\<rparr>"

section \<open>Each step only appends to the list of records\<close>

lemma appended_simps:
  "appended oids (Inl e) = Inl e"
  "appended oids (Inr new) = Inr (oids @ new)"
  by (simp_all add: appended_def)

lemma appended_appended: "appended oids (appended [x] r) = appended (oids @ [x]) r"
  by (cases r) (simp_all add: appended_def)

lemma make_gauge_desc_loop_frame:
  "make_gauge_desc_loop cfg device host community ifName ifIndex items oids =
   appended oids (make_gauge_desc_loop cfg device host community ifName ifIndex items [])"
proof (induction items arbitrary: oids)
  case Nil
  then show ?case by (simp add: appended_def)
next
  case (Cons it items)
  obtain n oid where it: "it = (n, oid)" by (cases it)
  show ?case
  proof (cases "map_of IF_MIB_GAUGE_OID_TABLE n")
    case None
    then show ?thesis by (simp add: it appended_def)
  next
    case (Some t)
    define x where "x = oid_desc ''G'' host community (join ''.'' [t, ifIndex])
      (join ''.'' [''devices'', device, path cfg, join ''.'' [sub_nonword ifName, n]])"
    have step: "make_gauge_desc_loop cfg device host community ifName ifIndex (it # items) acc =
        make_gauge_desc_loop cfg device host community ifName ifIndex items (acc @ [x])" for acc
      by (simp add: it Some Let_def x_def)
    have "make_gauge_desc_loop cfg device host community ifName ifIndex (it # items) oids =
        appended (oids @ [x]) (make_gauge_desc_loop cfg device host community ifName ifIndex items [])"
      unfolding step by (rule Cons.IH)
    also have "\<dots> = appended oids (appended [x]
        (make_gauge_desc_loop cfg device host community ifName ifIndex items []))"
      by (simp only: appended_appended)
    also have "appended [x] (make_gauge_desc_loop cfg device host community ifName ifIndex items []) =
        make_gauge_desc_loop cfg device host community ifName ifIndex (it # items) []"
      unfolding step [of "[]"] append_Nil by (rule Cons.IH [symmetric])
    finally show ?thesis .
  qed
qed

lemma make_counter_desc_loop_frame:
  "make_counter_desc_loop cfg device host community ifName ifIndex items mp oids =
   appended oids (make_counter_desc_loop cfg device host community ifName ifIndex items mp [])"
proof (induction items arbitrary: oids mp)
  case Nil
  then show ?case by (simp add: appended_def)
next
  case (Cons it items)
  obtain n oid where it: "it = (n, oid)" by (cases it)
  show ?case
  proof (cases "map_of IF_MIB_COUNTER_OID_TABLE n")
    case None
    then show ?thesis by (simp add: it appended_def)
  next
    case (Some t)
    define mp' where "mp' =
      (if n \<in> set [''ifHCInOctets'', ''ifHCOutOctets'']
       then byte_unit_loop cfg device (sub_nonword ifName) n (byte_unit cfg) mp
       else Some (join ''.'' [''devices'', device, path cfg, join ''.'' [sub_nonword ifName, n]]))"
    show ?thesis
    proof (cases mp')
      case None
      then have "make_counter_desc_loop cfg device host community ifName ifIndex (it # items) mp acc =
          Inl UnboundLocalError" for acc
        unfolding mp'_def by (auto simp: it Some Let_def split: if_splits)
      then show ?thesis by (simp add: appended_def)
    next
      case (Some p)
      define x where "x = oid_desc ''C'' host community (join ''.'' [t, ifIndex]) p"
      have step: "make_counter_desc_loop cfg device host community ifName ifIndex (it # items) mp acc =
          make_counter_desc_loop cfg device host community ifName ifIndex items (Some p) (acc @ [x])" for acc
        using Some unfolding mp'_def x_def
        by (auto simp: it \<open>map_of IF_MIB_COUNTER_OID_TABLE n = Some t\<close> Let_def split: if_splits)
      have "make_counter_desc_loop cfg device host community ifName ifIndex (it # items) mp oids =
          appended (oids @ [x])
            (make_counter_desc_loop cfg device host community ifName ifIndex items (Some p) [])"
        unfolding step by (rule Cons.IH)
      also have "\<dots> = appended oids (appended [x]
          (make_counter_desc_loop cfg device host community ifName ifIndex items (Some p) []))"
        by (simp only: appended_appended)
      also have "appended [x]
          (make_counter_desc_loop cfg device host community ifName ifIndex items (Some p) []) =
          make_counter_desc_loop cfg device host community ifName ifIndex (it # items) mp []"
        unfolding step [of "[]"] append_Nil by (rule Cons.IH [symmetric])
      finally show ?thesis .
    qed
  qed
qed

lemma make_gauge_desc_frame:
  "make_gauge_desc cfg device host community ifName ifIndex oids =
   appended oids (make_gauge_desc cfg device host community ifName ifIndex [])"
  unfolding make_gauge_desc_def by (rule make_gauge_desc_loop_frame)

lemma make_counter_desc_frame:
  "make_counter_desc cfg device host community ifName ifIndex oids =
   appended oids (make_counter_desc cfg device host community ifName ifIndex [])"
  unfolding make_counter_desc_def by (rule make_counter_desc_loop_frame)

lemma get_interface_indexes_body_frame:
  "get_interface_indexes_body cfg s device host port community ifIndex oids =
   appended oids (get_interface_indexes_body cfg s device host port community ifIndex [])"
proof -
  define G where "G nm = make_gauge_desc cfg device host community nm ifIndex []" for nm
  define C where "C nm = make_counter_desc cfg device host community nm ifIndex []" for nm
  have g: "make_gauge_desc cfg device host community nm ifIndex acc = appended acc (G nm)" for nm acc
    unfolding G_def by (rule make_gauge_desc_frame)
  have c: "make_counter_desc cfg device host community nm ifIndex acc = appended acc (C nm)" for nm acc
    unfolding C_def by (rule make_counter_desc_frame)
  show ?thesis
    unfolding get_interface_indexes_body_def Let_def g c
    by (auto simp: appended_def split: sum.splits)
qed

lemma get_interface_indexes_loop_frame:
  "get_interface_indexes_loop cfg s device host port community ifIndexes oids =
   appended oids (get_interface_indexes_loop cfg s device host port community ifIndexes [])"
proof (induction ifIndexes arbitrary: oids)
  case Nil
  show ?case by (simp add: appended_def)
next
  case (Cons i ifIndexes)
  define B where "B = get_interface_indexes_body cfg s device host port community i []"
  have b: "get_interface_indexes_body cfg s device host port community i acc = appended acc B" for acc
    unfolding B_def by (rule get_interface_indexes_body_frame)
  define L where "L = get_interface_indexes_loop cfg s device host port community ifIndexes []"
  have l: "get_interface_indexes_loop cfg s device host port community ifIndexes acc = appended acc L" for acc
    unfolding L_def by (rule Cons.IH)
  show ?case
    unfolding get_interface_indexes_loop.simps b l
    by (auto simp: appended_def split: sum.splits)
qed

lemma get_interface_indexes_frame:
  "get_interface_indexes cfg s device host port community oids =
   appended oids (get_interface_indexes cfg s device host port community [])"
  unfolding get_interface_indexes_def Let_def
  by (cases "walk s (join ''.'' [IF_MIB_INDEX_OID]) host port community")
     (simp_all add: appended_def get_interface_indexes_loop_frame [of _ _ _ _ _ _ _ oids, unfolded appended_def])

lemma get_environment_oid_frame:
  "get_environment_oid s device host port community oids =
   appended oids (get_environment_oid s device host port community [])"
  unfolding get_environment_oid_def Let_def
  by (auto simp: appended_def split: sum.splits)

section \<open>The records of one interface\<close>

lemmas consts_defs = IF_MIB_INDEX_OID_def IF_MIB_NAME_OID_def IF_MIB_TYPE_OID_def IF_MIB_STATUS_OID_def
  VENDOR_DESC_OID_def IOS_XE_CPU_OID_def CISCO_LEGACY_CPU_OID_def GENERIC_CPU_OID_def
  IF_TYPES_def IF_STATUS_def

lemma make_counter_desc_eq:
  "make_counter_desc cfg device host community ifName ifIndex oids =
   Inr (oids @ map (\<lambda>(counterName, counterOid).
          oid_desc ''C'' host community (counterOid @ ''.'' @ ifIndex)
            (''devices.'' @ device @ ''.'' @ path cfg @ ''.'' @ sub_nonword ifName @ ''.'' @ counterName))
        IF_MIB_COUNTER_OID_TABLE)"
  by (simp add: make_counter_desc_def IF_MIB_COUNTER_OID_TABLE_def Let_def)

lemma make_gauge_desc_eq:
  "make_gauge_desc cfg device host community ifName ifIndex oids =
   Inr (oids @ map (\<lambda>(gaugeName, gaugeOid).
          oid_desc ''G'' host community (gaugeOid @ ''.'' @ ifIndex)
            (''devices.'' @ device @ ''.'' @ path cfg @ ''.'' @ sub_nonword ifName @ ''.'' @ gaugeName))
        IF_MIB_GAUGE_OID_TABLE)"
  by (simp add: make_gauge_desc_def IF_MIB_GAUGE_OID_TABLE_def Let_def)

section \<open>Splitting the file into lines\<close>

lemma splitlines_from_LF: "splitlines_from cur (CHR 0x0A # cs) = cur # splitlines_from [] cs"
  by simp

lemma splitlines_from_CR: "splitlines_from cur [CHR 0x0D] = [cur]"
  by simp

lemma splitlines_from_CRLF:
  "splitlines_from cur (CHR 0x0D # CHR 0x0A # cs) = cur # splitlines_from [] cs"
  by simp

lemma splitlines_from_CR_other:
  "d \<noteq> CHR 0x0A \<Longrightarrow> splitlines_from cur (CHR 0x0D # d # cs) = cur # splitlines_from [] (d # cs)"
  by (subst splitlines_from.simps) simp

lemma splitlines_from_other:
  "c \<noteq> CHR 0x0A \<Longrightarrow> c \<noteq> CHR 0x0D \<Longrightarrow> splitlines_from cur (c # cs) = splitlines_from (cur @ [c]) cs"
  by simp

lemmas splitlines_from_steps = splitlines_from_LF splitlines_from_CR splitlines_from_CRLF
  splitlines_from_CR_other splitlines_from_other

lemma splitlines_from_append_LF:
  "splitlines_from cur (a @ CHR 0x0A # b) = splitlines_from cur (a @ [CHR 0x0A]) @ splitlines_from [] b"
proof (induction a arbitrary: cur rule: length_induct)
  case (1 a)
  then have IH: "splitlines_from cur' (a' @ CHR 0x0A # b) =
      splitlines_from cur' (a' @ [CHR 0x0A]) @ splitlines_from [] b"
    if "length a' < length a" for a' cur'
    using that by blast
  show ?case
  proof (cases a)
    case Nil
    then show ?thesis by simp
  next
    case a: (Cons c cs)
    consider (lf) "c = CHR 0x0A" | (cr) "c = CHR 0x0D" | (other) "c \<noteq> CHR 0x0A" "c \<noteq> CHR 0x0D"
      by blast
    then show ?thesis
    proof cases
      case lf
      then show ?thesis
        using IH [of cs "[]"] by (simp add: a del: splitlines_from.simps(2))
          (simp add: splitlines_from_LF del: splitlines_from.simps(2))
    next
      case cr
      show ?thesis
      proof (cases cs)
        case Nil
        then show ?thesis
          by (simp add: a cr splitlines_from_steps del: splitlines_from.simps(2))
      next
        case cs: (Cons d ds)
        show ?thesis
        proof (cases "d = CHR 0x0A")
          case True
          then show ?thesis
            using IH [of ds "[]"]
            by (simp add: a cr cs splitlines_from_steps del: splitlines_from.simps(2))
        next
          case False
          then show ?thesis
            using IH [of cs "[]"]
            by (simp add: a cr cs splitlines_from_steps del: splitlines_from.simps(2))
        qed
      qed
    next
      case other
      then show ?thesis
        using IH [of cs "cur @ [c]"]
        by (simp add: a splitlines_from_steps del: splitlines_from.simps(2))
    qed
  qed
qed

lemma splitlines_from_line:
  "no_linebreak l \<Longrightarrow> splitlines_from cur (l @ [CHR 0x0A]) = [cur @ l]"
  by (induction l arbitrary: cur) (simp_all add: no_linebreak_def)

lemma splitlines_from_no_linebreak:
  "l \<in> set (splitlines_from cur s) \<Longrightarrow> no_linebreak cur \<Longrightarrow> no_linebreak l"
proof (induction s arbitrary: cur rule: length_induct)
  case (1 s)
  then have IH: "no_linebreak l"
    if "length s' < length s" "l \<in> set (splitlines_from cur' s')" "no_linebreak cur'" for s' cur'
    using that by blast
  have e: "no_linebreak []" by (simp add: no_linebreak_def)
  note l = \<open>l \<in> set (splitlines_from cur s)\<close> and cur = \<open>no_linebreak cur\<close>
  show ?case
  proof (cases s)
    case Nil
    with l cur show ?thesis by (simp split: if_splits)
  next
    case s: (Cons c cs)
    consider (lf) "c = CHR 0x0A" | (cr) "c = CHR 0x0D" | (other) "c \<noteq> CHR 0x0A" "c \<noteq> CHR 0x0D"
      by blast
    then show ?thesis
    proof cases
      case lf
      with l have "l = cur \<or> l \<in> set (splitlines_from [] cs)"
        by (simp add: s splitlines_from_steps del: splitlines_from.simps(2))
      then show ?thesis using cur IH [of cs "[]"] e by (auto simp: s)
    next
      case cr
      show ?thesis
      proof (cases cs)
        case Nil
        with l cr cur show ?thesis
          by (simp add: s splitlines_from_steps del: splitlines_from.simps(2))
      next
        case cs: (Cons d ds)
        show ?thesis
        proof (cases "d = CHR 0x0A")
          case True
          with l cr have "l = cur \<or> l \<in> set (splitlines_from [] ds)"
            by (simp add: s cs splitlines_from_steps del: splitlines_from.simps(2))
          then show ?thesis using cur IH [of ds "[]"] e by (auto simp: s cs)
        next
          case False
          with l cr have "l = cur \<or> l \<in> set (splitlines_from [] cs)"
            by (simp add: s cs splitlines_from_steps del: splitlines_from.simps(2))
          then show ?thesis using cur IH [of cs "[]"] e by (auto simp: s)
        qed
      qed
    next
      case other
      with l have "l \<in> set (splitlines_from (cur @ [c]) cs)"
        by (simp add: s splitlines_from_steps del: splitlines_from.simps(2))
      moreover have "no_linebreak (cur @ [c])"
        using cur other by (simp add: no_linebreak_def)
      ultimately show ?thesis using IH [of cs "cur @ [c]"] by (simp add: s)
    qed
  qed
qed

lemma splitlines_no_linebreak: "l \<in> set (splitlines s) \<Longrightarrow> no_linebreak l"
  unfolding splitlines_def by (erule splitlines_from_no_linebreak) (simp add: no_linebreak_def)

lemma splitlines_write_oids_Cons:
  "splitlines (write_oids (l # ls)) = splitlines (l @ [CHR 0x0A]) @ splitlines (write_oids ls)"
proof -
  have "write_oids (l # ls) = l @ CHR 0x0A # write_oids ls"
    by (simp add: write_oids_def)
  then have "splitlines (write_oids (l # ls)) = splitlines_from [] (l @ CHR 0x0A # write_oids ls)"
    by (simp only: splitlines_def)
  also have "\<dots> = splitlines_from [] (l @ [CHR 0x0A]) @ splitlines_from [] (write_oids ls)"
    by (rule splitlines_from_append_LF)
  finally show ?thesis
    by (simp only: splitlines_def)
qed

lemma splitlines_write_oids_append:
  "splitlines (write_oids (xs @ ys)) = splitlines (write_oids xs) @ splitlines (write_oids ys)"
proof (induction xs)
  case Nil
  show ?case by (simp add: write_oids_def splitlines_def)
next
  case (Cons l xs)
  have "splitlines (write_oids ((l # xs) @ ys)) =
      splitlines (l @ [CHR 0x0A]) @ splitlines (write_oids (xs @ ys))"
    by (simp only: append_Cons splitlines_write_oids_Cons)
  also have "\<dots> = splitlines (write_oids (l # xs)) @ splitlines (write_oids ys)"
    by (simp only: Cons.IH splitlines_write_oids_Cons append_assoc)
  finally show ?case .
qed

lemma splitlines_write_oids_lines:
  "list_all no_linebreak ls \<Longrightarrow> splitlines (write_oids ls) = ls"
proof (induction ls)
  case Nil
  show ?case by (simp add: write_oids_def splitlines_def)
next
  case (Cons l ls)
  then have "splitlines (l @ [CHR 0x0A]) = [l]"
    by (simp add: splitlines_def splitlines_from_line)
  with Cons show ?case by (simp add: splitlines_write_oids_Cons)
qed

lemma list_all_no_linebreak_splitlines: "list_all no_linebreak (splitlines s)"
  by (simp add: list_all_iff splitlines_no_linebreak)

lemma list_all_no_linebreak_parse: "list_all no_linebreak (parse_oid_file f host)"
  by (auto simp: parse_oid_file_def read_oidfile_def list_all_iff splitlines_no_linebreak
      split: option.splits)

section \<open>What a successful run writes\<close>

lemma collect_snmp_Inr:
  assumes "collect_snmp cfg s f device host port community = Inr f'"
  shows "\<exists>ifs cpu.
      get_interface_indexes cfg s device host port community [] = Inr ifs
    \<and> get_environment_oid s device host port community [] = Inr cpu
    \<and> writable f
    \<and> f' = f\<lparr>contents := Some (write_oids (parse_oid_file f host @ ifs @ cpu))\<rparr>"
proof -
  define I where "I = get_interface_indexes cfg s device host port community []"
  define E where "E = get_environment_oid s device host port community []"
  have i: "get_interface_indexes cfg s device host port community acc = appended acc I" for acc
    unfolding I_def by (rule get_interface_indexes_frame)
  have e: "get_environment_oid s device host port community acc = appended acc E" for acc
    unfolding E_def by (rule get_environment_oid_frame)
  from assms show ?thesis
    unfolding collect_snmp_def Let_def i e I_def [symmetric] E_def [symmetric]
    by (cases I; cases E) (auto simp: appended_def split: if_splits)
qed

lemma collect_snmp_succeeds:
  assumes "get_interface_indexes cfg s device host port community [] = Inr ifs"
    and "get_environment_oid s device host port community [] = Inr cpu"
    and "writable f"
  shows "collect_snmp cfg s f device host port community =
      Inr (f\<lparr>contents := Some (write_oids (parse_oid_file f host @ ifs @ cpu))\<rparr>)"
proof -
  have i: "get_interface_indexes cfg s device host port community acc = Inr (acc @ ifs)" for acc
    by (subst get_interface_indexes_frame) (simp add: assms appended_def)
  have e: "get_environment_oid s device host port community acc = Inr (acc @ cpu)" for acc
    by (subst get_environment_oid_frame) (simp add: assms appended_def)
  show ?thesis
    unfolding collect_snmp_def Let_def i e by (simp add: assms)
qed

lemma get_interface_indexes_loop_append:
  "get_interface_indexes_loop cfg s device host port community (xs @ ys) oids =
     (case get_interface_indexes_loop cfg s device host port community xs oids of
        Inl e \<Rightarrow> Inl e
      | Inr oids' \<Rightarrow> get_interface_indexes_loop cfg s device host port community ys oids')"
  by (induction xs arbitrary: oids) (simp_all split: sum.splits)

section \<open>Sanitization of interface names\<close>

lemma is_word_char_underscore: "is_word_char (CHR ''_'')"
  by (simp add: is_word_char_def word_chars_def)

lemma sub_nonword_word_chars: "c \<in> set (sub_nonword s) \<Longrightarrow> is_word_char c"
  by (auto simp: sub_nonword_def is_word_char_underscore)

lemma sub_nonword_fixes_words: "list_all is_word_char s \<Longrightarrow> sub_nonword s = s"
  by (induction s) (simp_all add: sub_nonword_def)

text \<open>
  Claim C7. Replacing the non-word characters of an interface name is defined on every
  string, leaves only characters of \<^verbatim>\<open>[A-Za-z0-9_]\<close>, keeps every word character and
  puts an underscore for every other one (position by position), and doing it twice
  is the same as doing it once; \<^verbatim>\<open>Gi0/1\<close> becomes \<^verbatim>\<open>Gi0_1\<close>.
\<close>

theorem sanitize_total_idempotent:
  "set (sub_nonword s) \<subseteq> set word_chars
   \<and> length (sub_nonword s) = length s
   \<and> (\<forall>i < length s. sub_nonword s ! i = (if s ! i \<in> set word_chars then s ! i else CHR ''_''))
   \<and> sub_nonword (sub_nonword s) = sub_nonword s
   \<and> sub_nonword ''Gi0/1'' = ''Gi0_1''"
proof -
  have a: "set (sub_nonword s) \<subseteq> set word_chars"
    using sub_nonword_word_chars by (auto simp: is_word_char_def)
  have b: "length (sub_nonword s) = length s"
    by (simp add: sub_nonword_def)
  have c: "\<forall>i < length s. sub_nonword s ! i = (if s ! i \<in> set word_chars then s ! i else CHR ''_'')"
    by (simp add: sub_nonword_def is_word_char_def)
  have d: "sub_nonword (sub_nonword s) = sub_nonword s"
    by (rule sub_nonword_fixes_words) (simp add: list_all_iff sub_nonword_word_chars)
  have e: "sub_nonword ''Gi0/1'' = ''Gi0_1''"
    by (simp add: sub_nonword_def is_word_char_def word_chars_def)
  from a b c d e show ?thesis by blast
qed

theorem sanitize_total_idempotent_witness:
  "set (sub_nonword ''eth 0.1'') \<subseteq> set word_chars
   \<and> sub_nonword ''eth 0.1'' ! 3 = CHR ''_''
   \<and> sub_nonword ''eth 0.1'' ! 4 = CHR ''0''
   \<and> sub_nonword (sub_nonword ''eth 0.1'') = sub_nonword ''eth 0.1''"
proof -
  have "(3::nat) < length ''eth 0.1''" "(4::nat) < length ''eth 0.1''"
    by simp_all
  moreover have "CHR '' '' \<notin> set word_chars" "CHR ''0'' \<in> set word_chars"
    by (simp_all add: word_chars_def)
  ultimately show ?thesis
    using sanitize_total_idempotent [of "''eth 0.1''"] by (simp add: nth_Cons')
qed

section \<open>The catalog merge\<close>

lemma router1_interfaces:
  "get_interface_indexes get_default_config router1_snmp ''router1'' ''router1.example.com'' 161
     ''public'' [] = Inr (butlast router1_records)"
  by (simp add: get_interface_indexes_def get_interface_indexes_body_def router1_snmp_def
      mib_snmp_def router1_mib_def consts_defs lookup_def make_counter_desc_eq
      IF_MIB_COUNTER_OID_TABLE_def oid_desc_def get_default_config_def remove_quotes_def
      sub_nonword_def is_word_char_def word_chars_def router1_records_def)

lemma router1_cpu:
  "get_environment_oid router1_snmp ''router1'' ''router1.example.com'' 161 ''public'' [] =
     Inr [last router1_records]"
  by (simp add: get_environment_oid_def router1_snmp_def mib_snmp_def router1_mib_def consts_defs
      lookup_def oid_desc_def router1_records_def)

lemma read_old_catalog:
  "read_oidfile old_catalog =
     [''G,router2.example.com,public,1.3.6.1.4.1.1588.2.1.1.1.26.1.0,devices.router2.cpu.current_percent'',
      ''G,router1.example.com,public,1.3.6.1.4.1.1588.2.1.1.1.26.1.0,devices.router1.cpu.current_percent'',
      ''C,router2.example.com,public,1.3.6.1.2.1.31.1.1.1.6.3,devices.router2.interface.Gi0_3.ifInOctets'']"
  unfolding read_oidfile_def old_catalog_def
  by (simp add: splitlines_write_oids_lines no_linebreak_def)

lemma router1_run:
  "collect_snmp get_default_config router1_snmp old_catalog ''router1'' ''router1.example.com'' 161
     ''public'' = Inr new_catalog"
proof -
  have w: "writable old_catalog"
    by (simp add: old_catalog_def)
  have r: "butlast router1_records @ [last router1_records] = router1_records"
    by (simp add: router1_records_def)
  have p: "parse_oid_file old_catalog ''router1.example.com'' =
      [''G,router2.example.com,public,1.3.6.1.4.1.1588.2.1.1.1.26.1.0,devices.router2.cpu.current_percent'',
       ''C,router2.example.com,public,1.3.6.1.2.1.31.1.1.1.6.3,devices.router2.interface.Gi0_3.ifInOctets'']"
    by (simp add: parse_oid_file_def read_old_catalog)
  have "old_catalog\<lparr>contents := Some (write_oids (parse_oid_file old_catalog ''router1.example.com''
      @ butlast router1_records @ [last router1_records]))\<rparr> = new_catalog"
    unfolding r p by (simp add: old_catalog_def new_catalog_def)
  then show ?thesis
    using collect_snmp_succeeds [OF router1_interfaces router1_cpu w] by simp
qed

text \<open>
  Claim C3. When a discovery run for host A succeeds on an existing catalog, the file it
  writes holds, in their original order, exactly the old lines that do not contain A's
  host token, followed by the records this run built (those of the interfaces, then the
  CPU record); read back, the file starts with those old lines unchanged. In
  particular the lines of a host B none of which contains A's token are all kept, in
  order.
\<close>

theorem collect_snmp_host_scoped_replacement:
  assumes "collect_snmp cfg s f device host port community = Inr f'"
  shows "\<exists>ifs cpu new.
      get_interface_indexes cfg s device host port community [] = Inr ifs
    \<and> get_environment_oid s device host port community [] = Inr cpu
    \<and> contents f' = Some new
    \<and> new = write_oids (filter (\<lambda>item. \<not> str_in host item) (read_oidfile f) @ ifs @ cpu)
    \<and> splitlines new =
        filter (\<lambda>item. \<not> str_in host item) (read_oidfile f) @ splitlines (write_oids (ifs @ cpu))
    \<and> (\<forall>hostB. (\<forall>item \<in> set (read_oidfile f). str_in hostB item \<longrightarrow> \<not> str_in host item) \<longrightarrow>
          filter (str_in hostB) (filter (\<lambda>item. \<not> str_in host item) (read_oidfile f)) =
          filter (str_in hostB) (read_oidfile f))"
proof -
  from collect_snmp_Inr [OF assms] obtain ifs cpu where
    ifs: "get_interface_indexes cfg s device host port community [] = Inr ifs" and
    cpu: "get_environment_oid s device host port community [] = Inr cpu" and
    f': "f' = f\<lparr>contents := Some (write_oids (parse_oid_file f host @ ifs @ cpu))\<rparr>"
    by blast
  define old where "old = read_oidfile f"
  have p: "parse_oid_file f host = filter (\<lambda>item. \<not> str_in host item) old"
    by (simp add: parse_oid_file_def old_def)
  have reread: "splitlines (write_oids (filter (\<lambda>item. \<not> str_in host item) old @ ifs @ cpu)) =
      filter (\<lambda>item. \<not> str_in host item) old @ splitlines (write_oids (ifs @ cpu))"
    using list_all_no_linebreak_parse [of f host]
    by (simp add: splitlines_write_oids_append [of "filter _ _"] splitlines_write_oids_lines p)
  have keepB: "filter (str_in hostB) (filter (\<lambda>item. \<not> str_in host item) old) = filter (str_in hostB) old"
    if "\<forall>item \<in> set old. str_in hostB item \<longrightarrow> \<not> str_in host item" for hostB
    using that by (auto intro: filter_cong)
  show ?thesis
    using ifs cpu f' reread keepB by (simp add: p old_def)
qed

theorem collect_snmp_host_scoped_replacement_witness:
  "collect_snmp get_default_config router1_snmp old_catalog ''router1'' ''router1.example.com'' 161
     ''public'' = Inr new_catalog
   \<and> contents new_catalog = Some (write_oids
       ([''G,router2.example.com,public,1.3.6.1.4.1.1588.2.1.1.1.26.1.0,devices.router2.cpu.current_percent'',
         ''C,router2.example.com,public,1.3.6.1.2.1.31.1.1.1.6.3,devices.router2.interface.Gi0_3.ifInOctets'']
        @ router1_records))
   \<and> filter (str_in ''router2.example.com'')
        (filter (\<lambda>item. \<not> str_in ''router1.example.com'' item) (read_oidfile old_catalog)) =
      filter (str_in ''router2.example.com'') (read_oidfile old_catalog)"
proof -
  have b: "\<forall>item \<in> set (read_oidfile old_catalog).
      str_in ''router2.example.com'' item \<longrightarrow> \<not> str_in ''router1.example.com'' item"
    by (simp add: read_old_catalog)
  from collect_snmp_host_scoped_replacement [OF router1_run] obtain ifs cpu new where
    "get_interface_indexes get_default_config router1_snmp ''router1'' ''router1.example.com'' 161
       ''public'' [] = Inr ifs"
    "get_environment_oid router1_snmp ''router1'' ''router1.example.com'' 161 ''public'' [] = Inr cpu"
    "contents new_catalog = Some new"
    "new = write_oids (filter (\<lambda>item. \<not> str_in ''router1.example.com'' item) (read_oidfile old_catalog)
       @ ifs @ cpu)"
    and keepB: "\<forall>hostB. (\<forall>item \<in> set (read_oidfile old_catalog).
        str_in hostB item \<longrightarrow> \<not> str_in ''router1.example.com'' item) \<longrightarrow>
      filter (str_in hostB)
        (filter (\<lambda>item. \<not> str_in ''router1.example.com'' item) (read_oidfile old_catalog)) =
      filter (str_in hostB) (read_oidfile old_catalog)"
    by blast
  from keepB b have "filter (str_in ''router2.example.com'')
        (filter (\<lambda>item. \<not> str_in ''router1.example.com'' item) (read_oidfile old_catalog)) =
      filter (str_in ''router2.example.com'') (read_oidfile old_catalog)"
    by blast
  moreover have "contents new_catalog = Some (write_oids
       ([''G,router2.example.com,public,1.3.6.1.4.1.1588.2.1.1.1.26.1.0,devices.router2.cpu.current_percent'',
         ''C,router2.example.com,public,1.3.6.1.2.1.31.1.1.1.6.3,devices.router2.interface.Gi0_3.ifInOctets'']
        @ router1_records))"
    by (simp add: new_catalog_def)
  ultimately show ?thesis
    using router1_run by blast
qed

text \<open>
  Claim C8. When a discovery run for a host succeeds, a second run right after it, on
  the file the first one wrote and with the same configuration and the same SNMP
  answers, succeeds as well, and the lines of the file that contain the host token are
  the same, in the same order, after the second run as after the first.
\<close>

theorem collect_snmp_rerun_idempotent:
  assumes "collect_snmp cfg s f device host port community = Inr f1"
  shows "\<exists>f2 text1 text2.
      collect_snmp cfg s f1 device host port community = Inr f2
    \<and> contents f1 = Some text1 \<and> contents f2 = Some text2
    \<and> filter (str_in host) (splitlines text2) = filter (str_in host) (splitlines text1)"
proof -
  from collect_snmp_Inr [OF assms] obtain ifs cpu where
    ifs: "get_interface_indexes cfg s device host port community [] = Inr ifs" and
    cpu: "get_environment_oid s device host port community [] = Inr cpu" and
    w: "writable f" and
    f1: "f1 = f\<lparr>contents := Some (write_oids (parse_oid_file f host @ ifs @ cpu))\<rparr>"
    by blast
  define keep where "keep = parse_oid_file f host"
  define built where "built = splitlines (write_oids (ifs @ cpu))"
  define text1 where "text1 = write_oids (keep @ ifs @ cpu)"
  have keep_lines: "list_all no_linebreak keep"
    unfolding keep_def by (rule list_all_no_linebreak_parse)
  have keep_host: "filter (\<lambda>item. \<not> str_in host item) keep = keep"
    unfolding keep_def parse_oid_file_def Let_def by simp
  have lines1: "splitlines text1 = keep @ built"
    unfolding text1_def built_def
    by (simp add: splitlines_write_oids_append [of keep] splitlines_write_oids_lines keep_lines)
  have c1: "contents f1 = Some text1"
    by (simp add: f1 text1_def keep_def)
  have w1: "writable f1"
    by (simp add: f1 w)
  define keep2 where "keep2 = parse_oid_file f1 host"
  define text2 where "text2 = write_oids (keep2 @ ifs @ cpu)"
  have k2: "keep2 = keep @ filter (\<lambda>item. \<not> str_in host item) built"
    unfolding keep2_def parse_oid_file_def read_oidfile_def Let_def
    by (simp add: c1 lines1 keep_host)
  have keep2_lines: "list_all no_linebreak keep2"
    unfolding keep2_def by (rule list_all_no_linebreak_parse)
  have lines2: "splitlines text2 = keep2 @ built"
    unfolding text2_def built_def
    by (simp add: splitlines_write_oids_append [of keep2] splitlines_write_oids_lines keep2_lines)
  have run2: "collect_snmp cfg s f1 device host port community = Inr (f1\<lparr>contents := Some text2\<rparr>)"
    unfolding text2_def keep2_def by (rule collect_snmp_succeeds [OF ifs cpu w1])
  have "filter (str_in host) (splitlines text2) = filter (str_in host) (splitlines text1)"
    by (simp add: lines1 lines2 k2)
  with run2 c1 show ?thesis by simp
qed

theorem collect_snmp_rerun_idempotent_witness:
  "collect_snmp get_default_config router1_snmp old_catalog ''router1'' ''router1.example.com'' 161
     ''public'' = Inr new_catalog
   \<and> (\<exists>f2 text1 text2.
        collect_snmp get_default_config router1_snmp new_catalog ''router1'' ''router1.example.com''
          161 ''public'' = Inr f2
      \<and> contents new_catalog = Some text1 \<and> contents f2 = Some text2
      \<and> filter (str_in ''router1.example.com'') (splitlines text2) =
        filter (str_in ''router1.example.com'') (splitlines text1))"
  using router1_run collect_snmp_rerun_idempotent [OF router1_run] by blast

text \<open>
  Claim C9. When the catalog file cannot be opened for reading (it is missing or
  unreadable), loading it gives the empty list of lines without raising, and the
  discovery run is the run on an empty catalog file.
\<close>

theorem missing_catalog_is_empty:
  assumes "contents f = None"
  shows "read_oidfile f = [] \<and> parse_oid_file f host = []
    \<and> collect_snmp cfg s f device host port community =
      collect_snmp cfg s (f\<lparr>contents := Some []\<rparr>) device host port community"
proof -
  have r: "read_oidfile f = []"
    by (simp add: read_oidfile_def assms)
  have a: "parse_oid_file f host = []"
    by (simp add: parse_oid_file_def r)
  have b: "parse_oid_file (f\<lparr>contents := Some []\<rparr>) host = []"
    by (simp add: parse_oid_file_def read_oidfile_def splitlines_def)
  have "f\<lparr>contents := Some t\<rparr> = f\<lparr>contents := Some [], contents := Some t\<rparr>" for t
    by simp
  then have "collect_snmp cfg s f device host port community =
      collect_snmp cfg s (f\<lparr>contents := Some []\<rparr>) device host port community"
    unfolding collect_snmp_def Let_def a b by (auto split: sum.splits)
  with r a show ?thesis by simp
qed

theorem missing_catalog_is_empty_witness:
  "contents \<lparr>contents = None, writable = True\<rparr> = None
   \<and> parse_oid_file \<lparr>contents = None, writable = True\<rparr> ''router1.example.com'' = []
   \<and> collect_snmp get_default_config router1_snmp \<lparr>contents = None, writable = True\<rparr>
       ''router1'' ''router1.example.com'' 161 ''public'' =
     collect_snmp get_default_config router1_snmp \<lparr>contents = Some [], writable = True\<rparr>
       ''router1'' ''router1.example.com'' 161 ''public''
   \<and> collect_snmp get_default_config router1_snmp \<lparr>contents = None, writable = True\<rparr>
       ''router1'' ''router1.example.com'' 161 ''public'' =
     Inr \<lparr>contents = Some (write_oids router1_records), writable = True\<rparr>"
proof -
  have n: "contents \<lparr>contents = None, writable = True\<rparr> = None"
    by simp
  have r: "butlast router1_records @ [last router1_records] = router1_records"
    by (simp add: router1_records_def)
  have "collect_snmp get_default_config router1_snmp \<lparr>contents = None, writable = True\<rparr>
       ''router1'' ''router1.example.com'' 161 ''public'' =
     Inr \<lparr>contents = Some (write_oids router1_records), writable = True\<rparr>"
    using collect_snmp_succeeds [OF router1_interfaces router1_cpu, of "\<lparr>contents = None, writable = True\<rparr>"]
    by (simp add: parse_oid_file_def read_oidfile_def r)
  then show ?thesis
    using missing_catalog_is_empty [OF n, of "''router1.example.com''" get_default_config router1_snmp
        "''router1''" 161 "''public''"]
    by simp
qed

section \<open>Enumeration of the interfaces\<close>

text \<open>
  Claim C5. For an interface index whose type GET and status GET both return, if the
  type is not one of 6, 135, 131, or the status is not 1, the loop body leaves the list
  of records as it was: no record is built for the index. The statement does not
  mention the GET of the name: whatever that GET would do, it is not reached.
\<close>

theorem rejected_interface_emits_nothing:
  assumes "get s (''1.3.6.1.2.1.2.2.1.3.'' @ ifIndex) host port community = Inr ifTypeData"
    and "get s (''1.3.6.1.2.1.2.2.1.8.'' @ ifIndex) host port community = Inr ifStatusData"
    and "ifTypeData (''1.3.6.1.2.1.2.2.1.3.'' @ ifIndex) = Some ifType"
    and "ifStatusData (''1.3.6.1.2.1.2.2.1.8.'' @ ifIndex) = Some ifStatus"
    and "ifType \<notin> {''6'', ''135'', ''131''} \<or> ifStatus \<noteq> ''1''"
  shows "get_interface_indexes_body cfg s device host port community ifIndex oids = Inr oids"
  using assms
  by (auto simp: get_interface_indexes_body_def consts_defs lookup_def)

theorem rejected_interface_emits_nothing_witness:
  "get (mib_snmp [] router1_mib) (''1.3.6.1.2.1.2.2.1.3.'' @ ''9'') ''router1.example.com'' 161 ''public'' =
     Inr [''1.3.6.1.2.1.2.2.1.3.9'' \<mapsto> ''24'']
   \<and> get (mib_snmp [] router1_mib) (''1.3.6.1.2.1.2.2.1.8.'' @ ''9'') ''router1.example.com'' 161 ''public'' =
     Inr [''1.3.6.1.2.1.2.2.1.8.9'' \<mapsto> ''1'']
   \<and> ''24'' \<notin> {''6'', ''135'', ''131''}
   \<and> get (mib_snmp [] router1_mib) ''1.3.6.1.2.1.31.1.1.1.1.9'' ''router1.example.com'' 161 ''public'' =
     Inl TransportError
   \<and> get_interface_indexes_body get_default_config (mib_snmp [] router1_mib) ''router1''
       ''router1.example.com'' 161 ''public'' ''9'' [''kept''] = Inr [''kept'']"
proof -
  have t: "get (mib_snmp [] router1_mib) (''1.3.6.1.2.1.2.2.1.3.'' @ ''9'') ''router1.example.com'' 161
      ''public'' = Inr [''1.3.6.1.2.1.2.2.1.3.9'' \<mapsto> ''24'']"
    by (simp add: mib_snmp_def router1_mib_def)
  have st: "get (mib_snmp [] router1_mib) (''1.3.6.1.2.1.2.2.1.8.'' @ ''9'') ''router1.example.com'' 161
      ''public'' = Inr [''1.3.6.1.2.1.2.2.1.8.9'' \<mapsto> ''1'']"
    by (simp add: mib_snmp_def router1_mib_def)
  have tv: "[''1.3.6.1.2.1.2.2.1.3.9'' \<mapsto> ''24''] (''1.3.6.1.2.1.2.2.1.3.'' @ ''9'') = Some ''24''"
    by simp
  have sv: "[''1.3.6.1.2.1.2.2.1.8.9'' \<mapsto> ''1''] (''1.3.6.1.2.1.2.2.1.8.'' @ ''9'') = Some ''1''"
    by simp
  have rej: "''24'' \<notin> {''6'', ''135'', ''131''} \<or> ''1'' \<noteq> ''1''"
    by simp
  have nm: "get (mib_snmp [] router1_mib) ''1.3.6.1.2.1.31.1.1.1.1.9'' ''router1.example.com'' 161
      ''public'' = Inl TransportError"
    by (simp add: mib_snmp_def router1_mib_def)
  have "''24'' \<notin> {''6'', ''135'', ''131''}"
    by simp
  with t st nm show ?thesis
    using rejected_interface_emits_nothing [OF t st tv sv rej, of get_default_config "''router1''" "[''kept'']"]
    by blast
qed

text \<open>
  The branch on the type of an accepted interface: for type 135 only
  \<^verbatim>\<open>make_counter_desc\<close> runs, for the other accepted types \<^verbatim>\<open>make_gauge_desc\<close> and then
  \<^verbatim>\<open>make_counter_desc\<close>. The name passed to both is the name GET's value without quotes.
\<close>

lemma accepted_interface_records:
  assumes "get s (''1.3.6.1.2.1.2.2.1.3.'' @ ifIndex) host port community = Inr ifTypeData"
    and "get s (''1.3.6.1.2.1.2.2.1.8.'' @ ifIndex) host port community = Inr ifStatusData"
    and "ifTypeData (''1.3.6.1.2.1.2.2.1.3.'' @ ifIndex) = Some ifType"
    and "ifStatusData (''1.3.6.1.2.1.2.2.1.8.'' @ ifIndex) = Some ifStatus"
    and "ifType \<in> {''6'', ''135'', ''131''}" and "ifStatus = ''1''"
    and "get s (''1.3.6.1.2.1.31.1.1.1.1.'' @ ifIndex) host port community = Inr ifNameData"
    and "ifNameData (''1.3.6.1.2.1.31.1.1.1.1.'' @ ifIndex) = Some ifName"
  shows "get_interface_indexes_body cfg s device host port community ifIndex oids =
    (if ifType = ''135''
     then make_counter_desc cfg device host community (remove_quotes ifName) ifIndex oids
     else (case make_gauge_desc cfg device host community (remove_quotes ifName) ifIndex oids of
             Inl e \<Rightarrow> Inl e
           | Inr oids' \<Rightarrow> make_counter_desc cfg device host community (remove_quotes ifName) ifIndex oids'))"
  using assms
  by (auto simp: get_interface_indexes_body_def consts_defs lookup_def Let_def)

text \<open>
  Claim C6, evaluated on the code. Interface 7 of the sample device has type 135 and is
  up; the configuration is the default one, whose list of unit labels has two entries.
  The claim asks for counter records only, and for more than the 8 base records since
  the unit list has more than one entry. The code builds counter records only, but
  exactly 8 of them: the two octets counters are not expanded.
\<close>

theorem type_135_counter_records_not_expanded:
  "byte_unit get_default_config = [''bit'', ''byte'']
   \<and> get_interface_indexes_body get_default_config (mib_snmp [] router1_mib) ''router1''
       ''router1.example.com'' 161 ''public'' ''7'' [] = Inr
     [''C,router1.example.com,public,1.3.6.1.2.1.31.1.1.1.6.7,devices.router1.interface.Vlan10.ifInOctets'',
      ''C,router1.example.com,public,1.3.6.1.2.1.31.1.1.1.7.7,devices.router1.interface.Vlan10.ifInUcastPkts'',
      ''C,router1.example.com,public,1.3.6.1.2.1.31.1.1.1.8.7,devices.router1.interface.Vlan10.ifInMulticastPkts'',
      ''C,router1.example.com,public,1.3.6.1.2.1.31.1.1.1.9.7,devices.router1.interface.Vlan10.ifInBroadcastPkts'',
      ''C,router1.example.com,public,1.3.6.1.2.1.31.1.1.1.10.7,devices.router1.interface.Vlan10.ifOutOctets'',
      ''C,router1.example.com,public,1.3.6.1.2.1.31.1.1.1.11.7,devices.router1.interface.Vlan10.ifOutUcastPkts'',
      ''C,router1.example.com,public,1.3.6.1.2.1.31.1.1.1.12.7,devices.router1.interface.Vlan10.ifOutMulticastPkts'',
      ''C,router1.example.com,public,1.3.6.1.2.1.31.1.1.1.13.7,devices.router1.interface.Vlan10.ifOutBroadcastPkts'']"
  by (simp add: get_interface_indexes_body_def mib_snmp_def router1_mib_def consts_defs lookup_def
      make_counter_desc_eq IF_MIB_COUNTER_OID_TABLE_def oid_desc_def get_default_config_def
      remove_quotes_def sub_nonword_def is_word_char_def word_chars_def)

text \<open>
  Claim C10. The two quote characters are deleted from the raw interface name before
  the non-word characters are replaced, so no quote is left to become an underscore.
  Interface 5 of the sample device answers its name as \<^verbatim>\<open>Gi0/1\<close> inside double quotes:
  its records are built under the segment \<^verbatim>\<open>Gi0_1\<close>, where replacing the non-word
  characters alone would give \<^verbatim>\<open>_Gi0_1_\<close>.
\<close>

theorem quotes_removed_before_sanitizing:
  "CHR 0x22 \<notin> set (remove_quotes ifName) \<and> CHR 0x27 \<notin> set (remove_quotes ifName)
   \<and> sub_nonword (remove_quotes ([CHR 0x22] @ ''Gi0/1'' @ [CHR 0x22])) = ''Gi0_1''
   \<and> sub_nonword ([CHR 0x22] @ ''Gi0/1'' @ [CHR 0x22]) = ''_Gi0_1_''
   \<and> sub_nonword (remove_quotes ([CHR 0x27] @ ''Gi0/1'' @ [CHR 0x27])) = ''Gi0_1''
   \<and> get (mib_snmp [] router1_mib) ''1.3.6.1.2.1.31.1.1.1.1.5'' ''router1.example.com'' 161 ''public'' =
       Inr [''1.3.6.1.2.1.31.1.1.1.1.5'' \<mapsto> [CHR 0x22] @ ''Gi0/1'' @ [CHR 0x22]]
   \<and> get_interface_indexes_body get_default_config (mib_snmp [] router1_mib) ''router1''
       ''router1.example.com'' 161 ''public'' ''5'' [] = Inr
     [''G,router1.example.com,public,1.3.6.1.2.1.2.2.1.13.5,devices.router1.interface.Gi0_1.ifInDiscards'',
      ''G,router1.example.com,public,1.3.6.1.2.1.2.2.1.14.5,devices.router1.interface.Gi0_1.ifInErrors'',
      ''G,router1.example.com,public,1.3.6.1.2.1.2.2.1.19.5,devices.router1.interface.Gi0_1.ifOutDiscards'',
      ''G,router1.example.com,public,1.3.6.1.2.1.2.2.1.20.5,devices.router1.interface.Gi0_1.ifOutErrors'',
      ''C,router1.example.com,public,1.3.6.1.2.1.31.1.1.1.6.5,devices.router1.interface.Gi0_1.ifInOctets'',
      ''C,router1.example.com,public,1.3.6.1.2.1.31.1.1.1.7.5,devices.router1.interface.Gi0_1.ifInUcastPkts'',
      ''C,router1.example.com,public,1.3.6.1.2.1.31.1.1.1.8.5,devices.router1.interface.Gi0_1.ifInMulticastPkts'',
      ''C,router1.example.com,public,1.3.6.1.2.1.31.1.1.1.9.5,devices.router1.interface.Gi0_1.ifInBroadcastPkts'',
      ''C,router1.example.com,public,1.3.6.1.2.1.31.1.1.1.10.5,devices.router1.interface.Gi0_1.ifOutOctets'',
      ''C,router1.example.com,public,1.3.6.1.2.1.31.1.1.1.11.5,devices.router1.interface.Gi0_1.ifOutUcastPkts'',
      ''C,router1.example.com,public,1.3.6.1.2.1.31.1.1.1.12.5,devices.router1.interface.Gi0_1.ifOutMulticastPkts'',
      ''C,router1.example.com,public,1.3.6.1.2.1.31.1.1.1.13.5,devices.router1.interface.Gi0_1.ifOutBroadcastPkts'']"
proof -
  have a: "CHR 0x22 \<notin> set (remove_quotes ifName) \<and> CHR 0x27 \<notin> set (remove_quotes ifName)"
    by (simp add: remove_quotes_def)
  have b: "sub_nonword (remove_quotes ([CHR 0x22] @ ''Gi0/1'' @ [CHR 0x22])) = ''Gi0_1''"
    "sub_nonword ([CHR 0x22] @ ''Gi0/1'' @ [CHR 0x22]) = ''_Gi0_1_''"
    "sub_nonword (remove_quotes ([CHR 0x27] @ ''Gi0/1'' @ [CHR 0x27])) = ''Gi0_1''"
    by (simp_all add: remove_quotes_def sub_nonword_def is_word_char_def word_chars_def)
  have c: "get (mib_snmp [] router1_mib) ''1.3.6.1.2.1.31.1.1.1.1.5'' ''router1.example.com'' 161 ''public'' =
       Inr [''1.3.6.1.2.1.31.1.1.1.1.5'' \<mapsto> [CHR 0x22] @ ''Gi0/1'' @ [CHR 0x22]]"
    by (simp add: mib_snmp_def router1_mib_def)
  have d: "get_interface_indexes_body get_default_config (mib_snmp [] router1_mib) ''router1''
       ''router1.example.com'' 161 ''public'' ''5'' [] = Inr
     [''G,router1.example.com,public,1.3.6.1.2.1.2.2.1.13.5,devices.router1.interface.Gi0_1.ifInDiscards'',
      ''G,router1.example.com,public,1.3.6.1.2.1.2.2.1.14.5,devices.router1.interface.Gi0_1.ifInErrors'',
      ''G,router1.example.com,public,1.3.6.1.2.1.2.2.1.19.5,devices.router1.interface.Gi0_1.ifOutDiscards'',
      ''G,router1.example.com,public,1.3.6.1.2.1.2.2.1.20.5,devices.router1.interface.Gi0_1.ifOutErrors'',
      ''C,router1.example.com,public,1.3.6.1.2.1.31.1.1.1.6.5,devices.router1.interface.Gi0_1.ifInOctets'',
      ''C,router1.example.com,public,1.3.6.1.2.1.31.1.1.1.7.5,devices.router1.interface.Gi0_1.ifInUcastPkts'',
      ''C,router1.example.com,public,1.3.6.1.2.1.31.1.1.1.8.5,devices.router1.interface.Gi0_1.ifInMulticastPkts'',
      ''C,router1.example.com,public,1.3.6.1.2.1.31.1.1.1.9.5,devices.router1.interface.Gi0_1.ifInBroadcastPkts'',
      ''C,router1.example.com,public,1.3.6.1.2.1.31.1.1.1.10.5,devices.router1.interface.Gi0_1.ifOutOctets'',
      ''C,router1.example.com,public,1.3.6.1.2.1.31.1.1.1.11.5,devices.router1.interface.Gi0_1.ifOutUcastPkts'',
      ''C,router1.example.com,public,1.3.6.1.2.1.31.1.1.1.12.5,devices.router1.interface.Gi0_1.ifOutMulticastPkts'',
      ''C,router1.example.com,public,1.3.6.1.2.1.31.1.1.1.13.5,devices.router1.interface.Gi0_1.ifOutBroadcastPkts'']"
    by (simp add: get_interface_indexes_body_def mib_snmp_def router1_mib_def consts_defs lookup_def
        make_counter_desc_eq make_gauge_desc_eq IF_MIB_COUNTER_OID_TABLE_def IF_MIB_GAUGE_OID_TABLE_def
        oid_desc_def get_default_config_def remove_quotes_def
        sub_nonword_def is_word_char_def word_chars_def)
  from a b c d show ?thesis by blast
qed

text \<open>
  Claim C2 does not hold as stated: nothing in \<^verbatim>\<open>get_interface_indexes\<close> catches an
  exception. On the sample agent that has no answer for the type of interface 5, the
  walk returns the indices 5 and 7, the GET of the type of 5 fails, and the enumeration
  of the device fails with that error instead of returning the records of interface 7.
\<close>

theorem per_index_get_failure_not_absorbed:
  "walk (mib_snmp [(''1.3.6.1.2.1.2.2.1.1.5'', ''5''), (''1.3.6.1.2.1.2.2.1.1.7'', ''7'')] flaky_mib)
      ''1.3.6.1.2.1.2.2.1.1'' ''router1.example.com'' 161 ''public'' =
     Inr [(''1.3.6.1.2.1.2.2.1.1.5'', ''5''), (''1.3.6.1.2.1.2.2.1.1.7'', ''7'')]
   \<and> get (mib_snmp [(''1.3.6.1.2.1.2.2.1.1.5'', ''5''), (''1.3.6.1.2.1.2.2.1.1.7'', ''7'')] flaky_mib)
      ''1.3.6.1.2.1.2.2.1.3.5'' ''router1.example.com'' 161 ''public'' = Inl TransportError
   \<and> get_interface_indexes get_default_config
      (mib_snmp [(''1.3.6.1.2.1.2.2.1.1.5'', ''5''), (''1.3.6.1.2.1.2.2.1.1.7'', ''7'')] flaky_mib)
      ''router1'' ''router1.example.com'' 161 ''public'' [] = Inl TransportError"
  by (simp add: get_interface_indexes_def get_interface_indexes_body_def mib_snmp_def flaky_mib_def
      consts_defs)

text \<open>
  Claim C2, amended. When the walk of the index table returns, the indices before
  \<open>ifIndex\<close> are processed without error, and one of the GETs for \<open>ifIndex\<close> that the
  loop body makes fails (the GET of the type; or the GET of the status; or, for an
  interface of an accepted type that is up, the GET of the name), then the enumeration
  of the device fails with that error: no index after it is processed and no record
  is returned.
\<close>

theorem per_index_get_failure_aborts_enumeration:
  assumes w: "walk s ''1.3.6.1.2.1.2.2.1.1'' host port community = Inr ifIndexData"
    and ix: "map snd ifIndexData = before @ ifIndex # after"
    and pre: "get_interface_indexes_loop cfg s device host port community before oids = Inr oids'"
    and fails:
      "get s (''1.3.6.1.2.1.2.2.1.3.'' @ ifIndex) host port community = Inl e
       \<or> (\<exists>ifTypeData. get s (''1.3.6.1.2.1.2.2.1.3.'' @ ifIndex) host port community = Inr ifTypeData
            \<and> get s (''1.3.6.1.2.1.2.2.1.8.'' @ ifIndex) host port community = Inl e)
       \<or> (\<exists>ifTypeData ifStatusData ifType ifStatus.
              get s (''1.3.6.1.2.1.2.2.1.3.'' @ ifIndex) host port community = Inr ifTypeData
            \<and> get s (''1.3.6.1.2.1.2.2.1.8.'' @ ifIndex) host port community = Inr ifStatusData
            \<and> ifTypeData (''1.3.6.1.2.1.2.2.1.3.'' @ ifIndex) = Some ifType
            \<and> ifStatusData (''1.3.6.1.2.1.2.2.1.8.'' @ ifIndex) = Some ifStatus
            \<and> ifType \<in> {''6'', ''135'', ''131''} \<and> ifStatus = ''1''
            \<and> get s (''1.3.6.1.2.1.31.1.1.1.1.'' @ ifIndex) host port community = Inl e)"
  shows "get_interface_indexes cfg s device host port community oids = Inl e"
proof -
  have body: "get_interface_indexes_body cfg s device host port community ifIndex oids' = Inl e"
    using fails
    by (auto simp: get_interface_indexes_body_def consts_defs lookup_def)
  have "get_interface_indexes_loop cfg s device host port community (before @ ifIndex # after) oids = Inl e"
    by (simp add: get_interface_indexes_loop_append pre body)
  then show ?thesis
    using w by (simp add: get_interface_indexes_def IF_MIB_INDEX_OID_def ix)
qed

theorem per_index_get_failure_aborts_enumeration_witness:
  "walk (mib_snmp [(''1.3.6.1.2.1.2.2.1.1.7'', ''7''), (''1.3.6.1.2.1.2.2.1.1.5'', ''5'')] flaky_mib)
      ''1.3.6.1.2.1.2.2.1.1'' ''router1.example.com'' 161 ''public'' =
     Inr [(''1.3.6.1.2.1.2.2.1.1.7'', ''7''), (''1.3.6.1.2.1.2.2.1.1.5'', ''5'')]
   \<and> get_interface_indexes_loop get_default_config
      (mib_snmp [(''1.3.6.1.2.1.2.2.1.1.7'', ''7''), (''1.3.6.1.2.1.2.2.1.1.5'', ''5'')] flaky_mib)
      ''router1'' ''router1.example.com'' 161 ''public'' [''7''] [] = Inr (butlast router1_records)
   \<and> get (mib_snmp [(''1.3.6.1.2.1.2.2.1.1.7'', ''7''), (''1.3.6.1.2.1.2.2.1.1.5'', ''5'')] flaky_mib)
      (''1.3.6.1.2.1.2.2.1.3.'' @ ''5'') ''router1.example.com'' 161 ''public'' = Inl TransportError
   \<and> get_interface_indexes get_default_config
      (mib_snmp [(''1.3.6.1.2.1.2.2.1.1.7'', ''7''), (''1.3.6.1.2.1.2.2.1.1.5'', ''5'')] flaky_mib)
      ''router1'' ''router1.example.com'' 161 ''public'' [] = Inl TransportError"
proof -
  define s where
    "s = mib_snmp [(''1.3.6.1.2.1.2.2.1.1.7'', ''7''), (''1.3.6.1.2.1.2.2.1.1.5'', ''5'')] flaky_mib"
  have w: "walk s ''1.3.6.1.2.1.2.2.1.1'' ''router1.example.com'' 161 ''public'' =
      Inr [(''1.3.6.1.2.1.2.2.1.1.7'', ''7''), (''1.3.6.1.2.1.2.2.1.1.5'', ''5'')]"
    by (simp add: s_def mib_snmp_def IF_MIB_INDEX_OID_def)
  have ix: "map snd [(''1.3.6.1.2.1.2.2.1.1.7'', ''7''), (''1.3.6.1.2.1.2.2.1.1.5'', ''5'')] =
      [''7''] @ ''5'' # []"
    by simp
  have pre: "get_interface_indexes_loop get_default_config s ''router1'' ''router1.example.com'' 161
      ''public'' [''7''] [] = Inr (butlast router1_records)"
    by (simp add: s_def get_interface_indexes_body_def mib_snmp_def flaky_mib_def consts_defs
        lookup_def make_counter_desc_eq IF_MIB_COUNTER_OID_TABLE_def oid_desc_def
        get_default_config_def remove_quotes_def sub_nonword_def is_word_char_def word_chars_def
        router1_records_def)
  have f: "get s (''1.3.6.1.2.1.2.2.1.3.'' @ ''5'') ''router1.example.com'' 161 ''public'' =
      Inl TransportError"
    by (simp add: s_def mib_snmp_def flaky_mib_def)
  from w pre f show ?thesis
    using per_index_get_failure_aborts_enumeration [OF w ix pre disjI1, OF f]
    unfolding s_def by blast
qed

section \<open>The CPU record of the device\<close>

text \<open>
  Claim C4. Whatever string the GET of the system description returns, exactly one
  record is appended: with OID 1.3.6.1.4.1.9.9.109.1.1.1.1.7.2 and metric name
  \<^verbatim>\<open>cpu.1min_average_percent\<close> when the string contains \<^verbatim>\<open>494f532d5845\<close>; otherwise
  with OID 1.3.6.1.4.1.9.9.109.1.1.1.1.7.1 and the same metric name when it contains
  \<^verbatim>\<open>436973636f\<close>; otherwise with OID 1.3.6.1.4.1.1588.2.1.1.1.26.1.0 and metric name
  \<^verbatim>\<open>cpu.current_percent\<close>.
\<close>

theorem get_environment_oid_classification:
  assumes "get s ''1.3.6.1.2.1.1.1.0'' host port community = Inr vendorData"
    and "vendorData ''1.3.6.1.2.1.1.1.0'' = Some vendorHexString"
  shows "get_environment_oid s device host port community oids = Inr (oids @
    [if str_in ''494f532d5845'' vendorHexString then
       ''G,'' @ host @ '','' @ community @ '',1.3.6.1.4.1.9.9.109.1.1.1.1.7.2,devices.'' @ device
         @ ''.cpu.1min_average_percent''
     else if str_in ''436973636f'' vendorHexString then
       ''G,'' @ host @ '','' @ community @ '',1.3.6.1.4.1.9.9.109.1.1.1.1.7.1,devices.'' @ device
         @ ''.cpu.1min_average_percent''
     else
       ''G,'' @ host @ '','' @ community @ '',1.3.6.1.4.1.1588.2.1.1.1.26.1.0,devices.'' @ device
         @ ''.cpu.current_percent''])"
  using assms
  by (simp add: get_environment_oid_def consts_defs lookup_def oid_desc_def)

theorem get_environment_oid_classification_witness:
  "get router1_snmp ''1.3.6.1.2.1.1.1.0'' ''router1.example.com'' 161 ''public'' =
     Inr [''1.3.6.1.2.1.1.1.0'' \<mapsto> ''0x436973636f20494f5320536f667477617265'']
   \<and> \<not> str_in ''494f532d5845'' ''0x436973636f20494f5320536f667477617265''
   \<and> str_in ''436973636f'' ''0x436973636f20494f5320536f667477617265''
   \<and> get_environment_oid router1_snmp ''router1'' ''router1.example.com'' 161 ''public'' [] =
     Inr [''G,router1.example.com,public,1.3.6.1.4.1.9.9.109.1.1.1.1.7.1,devices.router1.cpu.1min_average_percent'']"
proof -
  have g: "get router1_snmp ''1.3.6.1.2.1.1.1.0'' ''router1.example.com'' 161 ''public'' =
      Inr [''1.3.6.1.2.1.1.1.0'' \<mapsto> ''0x436973636f20494f5320536f667477617265'']"
    by (simp add: router1_snmp_def mib_snmp_def router1_mib_def)
  have v: "[''1.3.6.1.2.1.1.1.0'' \<mapsto> ''0x436973636f20494f5320536f667477617265''] ''1.3.6.1.2.1.1.1.0'' =
      Some ''0x436973636f20494f5320536f667477617265''"
    by simp
  have x: "\<not> str_in ''494f532d5845'' ''0x436973636f20494f5320536f667477617265''"
    and c: "str_in ''436973636f'' ''0x436973636f20494f5320536f667477617265''"
    by simp_all
  from g x c show ?thesis
    using get_environment_oid_classification [OF g v, of "''router1''" "[]"] by simp
qed

section \<open>The octets counters\<close>

text \<open>
  The loop of \<^verbatim>\<open>make_counter_desc\<close> tests the counter name against \<^verbatim>\<open>ifHCInOctets\<close> and
  \<^verbatim>\<open>ifHCOutOctets\<close>, which are not keys of the counter table, so the branch over the unit
  labels is never taken: the records do not depend on \<^verbatim>\<open>byte_unit\<close>.
\<close>

lemma make_counter_desc_ignores_byte_unit:
  "make_counter_desc (cfg\<lparr>byte_unit := units\<rparr>) device host community ifName ifIndex oids =
   make_counter_desc cfg device host community ifName ifIndex oids"
  by (simp add: make_counter_desc_eq)

text \<open>
  Claim C1, evaluated on the code. With the default configuration, whose unit labels
  are \<^verbatim>\<open>bit\<close> and \<^verbatim>\<open>byte\<close>, the claim asks for two records for \<^verbatim>\<open>ifInOctets\<close>, named
  \<^verbatim>\<open>ifInbit\<close> and \<^verbatim>\<open>ifInbyte\<close>, with the same OID, and likewise for \<^verbatim>\<open>ifOutOctets\<close>. The
  code builds one record for each of the two, under the unchanged names.
\<close>

theorem make_counter_desc_octets_not_expanded:
  "byte_unit get_default_config = [''bit'', ''byte'']
   \<and> make_counter_desc get_default_config ''router1'' ''router1.example.com'' ''public'' ''Gi0/1'' ''5'' [] =
     Inr [''C,router1.example.com,public,1.3.6.1.2.1.31.1.1.1.6.5,devices.router1.interface.Gi0_1.ifInOctets'',
      ''C,router1.example.com,public,1.3.6.1.2.1.31.1.1.1.7.5,devices.router1.interface.Gi0_1.ifInUcastPkts'',
      ''C,router1.example.com,public,1.3.6.1.2.1.31.1.1.1.8.5,devices.router1.interface.Gi0_1.ifInMulticastPkts'',
      ''C,router1.example.com,public,1.3.6.1.2.1.31.1.1.1.9.5,devices.router1.interface.Gi0_1.ifInBroadcastPkts'',
      ''C,router1.example.com,public,1.3.6.1.2.1.31.1.1.1.10.5,devices.router1.interface.Gi0_1.ifOutOctets'',
      ''C,router1.example.com,public,1.3.6.1.2.1.31.1.1.1.11.5,devices.router1.interface.Gi0_1.ifOutUcastPkts'',
      ''C,router1.example.com,public,1.3.6.1.2.1.31.1.1.1.12.5,devices.router1.interface.Gi0_1.ifOutMulticastPkts'',
      ''C,router1.example.com,public,1.3.6.1.2.1.31.1.1.1.13.5,devices.router1.interface.Gi0_1.ifOutBroadcastPkts'']"
  by (simp add: make_counter_desc_eq IF_MIB_COUNTER_OID_TABLE_def oid_desc_def get_default_config_def
      sub_nonword_def is_word_char_def word_chars_def)

end
